theory Spec2Isabelle
  imports Complex_Main "HOL-Library.Multiset"
begin

section \<open>Harbour planner front end: data handed over by the optimisation API\<close>

text \<open>
  The pages of the front end receive, for every requested strategy, an evaluation object
  and a list of placements. Counts are integers; rates and scores are passed through by
  the pages without arithmetic, so they are kept as rationals. An object's entries are
  listed in the order \<^verbatim>\<open>Object.entries\<close> yields them (insertion order for the
  strategy names), hence association lists.
\<close>

record evaluation =
  boats_placed :: int
  total_boats :: int
  placement_rate :: rat
  utilization :: rat
  score :: rat

type_synonym evaluations = "(string \<times> evaluation) list"

record best_strategy =
  name :: string
  evaluation :: evaluation

subsection \<open>Optimization page: \<^verbatim>\<open>findBestStrategy\<close>\<close>

text \<open>
  The \<^verbatim>\<open>forEach\<close> body, on the two variables it mutates
  (\<^verbatim>\<open>bestStrategy\<close>, \<^verbatim>\<open>maxBoatsPlaced\<close>).
\<close>

fun findBest_step ::
  "best_strategy option \<times> int \<Rightarrow> string \<times> evaluation \<Rightarrow> best_strategy option \<times> int" where
  "findBest_step (bestStrategy, maxBoatsPlaced) (strategyName, ev) =
     (if boats_placed ev > maxBoatsPlaced
      then (Some \<lparr>name = strategyName, evaluation = ev\<rparr>, boats_placed ev)
      else (bestStrategy, maxBoatsPlaced))"

definition findBestStrategy :: "evaluations \<Rightarrow> best_strategy option" where
  "findBestStrategy evs = fst (foldl findBest_step (None, 0) evs)"


subsection \<open>Optimization page: the enhanced result built by \<^verbatim>\<open>handleRunOptimization\<close>\<close>

text \<open>
  A placement as the API returns it, and as the page re-packs it for the map (the same
  four fields plus the strategy's name). Times are ISO strings the page only copies.
\<close>

record raw_placement =
  raw_boat_id :: int
  raw_slot_id :: int
  raw_start_time :: string
  raw_end_time :: string

record placement =
  boat_id :: int
  slot_id :: int
  start_time :: string
  end_time :: string
  strategy_name :: string

text \<open>
  The narrative object \<^verbatim>\<open>gpt_analysis\<close> of the response: its recommendations (possibly
  missing) and whatever other keys it carries. The whole object may be missing.
\<close>

record gpt_analysis =
  recommendations :: "string list option"
  other_keys :: "(string \<times> string) list"

record response_data =
  strategies :: "(string \<times> raw_placement list) list option"
  evaluations :: "evaluations option"
  gpt_analysis :: "gpt_analysis option"
  other_data :: "(string \<times> string) list"

text \<open>
  \<^verbatim>\<open>bestStrategy?.name || '...'\<close>: the name, or the fixed fallback text when there is
  no best strategy (or its name is the empty string, which is falsy).
\<close>

datatype best_label = StrategyName string | NoStrategyEvaluated

text \<open>
  The first recommendation is the page's own sentence, a template over the best
  strategy's name (\<^verbatim>\<open>undefined\<close> when there is none) and its two counts; the
  narrative's recommendations follow.
\<close>

datatype recommendation = AutoSelected "string option" int int | Narrative string

record enhanced_gpt =
  kept_keys :: "(string \<times> string) list"
  gpt_best_strategy :: best_label
  auto_optimization :: bool
  gpt_boats_placed :: int
  gpt_total_boats :: int
  gpt_placement_rate :: rat
  gpt_recommendations :: "recommendation list"

record enhanced_result =
  res_strategies :: "(string \<times> raw_placement list) list option"
  res_evaluations :: "evaluations option"
  res_other_data :: "(string \<times> string) list"
  auto_selected_best :: "best_strategy option"
  strategy_results :: "(string \<times> placement list) list"
  res_gpt_analysis :: enhanced_gpt

definition overridden_keys :: "string list" where
  "overridden_keys = [''best_strategy'', ''auto_optimization'', ''boats_placed'',
     ''total_boats'', ''placement_rate'', ''recommendations'']"

text \<open>\<^verbatim>\<open>x || 0\<close> on a number: a zero stays zero, anything else is kept.\<close>

definition or_zero :: "'a::zero option \<Rightarrow> 'a" where
  "or_zero v = (case v of None \<Rightarrow> 0 | Some x \<Rightarrow> x)"

definition best_name_label :: "best_strategy option \<Rightarrow> best_label" where
  "best_name_label best =
     (case best of
        None \<Rightarrow> NoStrategyEvaluated
      | Some b \<Rightarrow> if name b = [] then NoStrategyEvaluated else StrategyName (name b))"

definition enhance_gpt :: "gpt_analysis option \<Rightarrow> best_strategy option \<Rightarrow> enhanced_gpt" where
  "enhance_gpt gpt bestStrategy =
     \<lparr>kept_keys = (case gpt of None \<Rightarrow> []
                   | Some g \<Rightarrow> filter (\<lambda>(k, v). k \<notin> set overridden_keys) (other_keys g)),
      gpt_best_strategy = best_name_label bestStrategy,
      auto_optimization = True,
      gpt_boats_placed = or_zero (map_option (\<lambda>b. boats_placed (evaluation b)) bestStrategy),
      gpt_total_boats = or_zero (map_option (\<lambda>b. total_boats (evaluation b)) bestStrategy),
      gpt_placement_rate = or_zero (map_option (\<lambda>b. placement_rate (evaluation b)) bestStrategy),
      gpt_recommendations =
        AutoSelected (map_option name bestStrategy)
          (or_zero (map_option (\<lambda>b. boats_placed (evaluation b)) bestStrategy))
          (or_zero (map_option (\<lambda>b. total_boats (evaluation b)) bestStrategy))
        # (case gpt of None \<Rightarrow> []
           | Some g \<Rightarrow> (case recommendations g of None \<Rightarrow> [] | Some rs \<Rightarrow> map Narrative rs))\<rparr>"

definition convert_placements :: "string \<Rightarrow> raw_placement list \<Rightarrow> placement list" where
  "convert_placements strategyName placements =
     map (\<lambda>p. \<lparr>boat_id = raw_boat_id p, slot_id = raw_slot_id p,
                start_time = raw_start_time p, end_time = raw_end_time p,
                strategy_name = strategyName\<rparr>) placements"

definition enhanceResult :: "response_data \<Rightarrow> enhanced_result" where
  "enhanceResult d =
     (let bestStrategy = findBestStrategy (case evaluations d of None \<Rightarrow> [] | Some evs \<Rightarrow> evs)
      in \<lparr>res_strategies = strategies d,
          res_evaluations = evaluations d,
          res_other_data = other_data d,
          auto_selected_best = bestStrategy,
          strategy_results =
            (case strategies d of
               None \<Rightarrow> []
             | Some ss \<Rightarrow> map (\<lambda>(strategyName, placements).
                                 (strategyName, convert_placements strategyName placements)) ss),
          res_gpt_analysis = enhance_gpt (gpt_analysis d) bestStrategy\<rparr>)"

text \<open>
  The page's state and the handler. The awaited API call either rejects (the
  \<^verbatim>\<open>catch\<close> branch) or resolves with the response's data; \<^verbatim>\<open>finally\<close> clears
  \<^verbatim>\<open>loading\<close> on every path.
\<close>

datatype page_error = NoError | NoStrategiesAvailable | OptimizationFailed

datatype progress_label = NoLabel | Preparing | RunningAll | Analysing | Finished

datatype api_outcome = Rejected | Resolved response_data

record optimization_page =
  loading :: bool
  page_strategies :: "(string \<times> string) list"
  optimizationResult :: "enhanced_result option"
  page_error :: page_error
  currentStrategy :: progress_label
  progress :: nat

definition handleRunOptimization :: "optimization_page \<Rightarrow> api_outcome \<Rightarrow> optimization_page" where
  "handleRunOptimization st outcome =
     (let st1 = st\<lparr>loading := True, page_error := NoError, progress := 0,
                    currentStrategy := NoLabel\<rparr>;
          allStrategyNames = map fst (page_strategies st)
      in if allStrategyNames = []
         then st1\<lparr>page_error := NoStrategiesAvailable, loading := False\<rparr>
         else (case outcome of
                 Rejected \<Rightarrow>
                   st1\<lparr>page_error := OptimizationFailed, progress := 0,
                       currentStrategy := NoLabel, loading := False\<rparr>
               | Resolved d \<Rightarrow>
                   st1\<lparr>optimizationResult := Some (enhanceResult d), progress := 100,
                       currentStrategy := Finished, loading := False\<rparr>))"

subsection \<open>API client: \<^verbatim>\<open>runOptimization\<close>\<close>

text \<open>
  \<^verbatim>\<open>axios.post(url, data, {params})\<close>: the request's body and its query parameters.
  The second argument of \<^verbatim>\<open>runOptimization\<close> has the default \<^verbatim>\<open>false\<close>, used when the
  caller passes nothing.
\<close>

datatype param_value = Names "string list" | Flag bool

record post_request =
  url :: string
  body :: "(string \<times> param_value) list option"
  params :: "(string \<times> param_value) list"

definition runOptimization :: "string list \<Rightarrow> bool option \<Rightarrow> post_request" where
  "runOptimization strategy_names run_in_background =
     \<lparr>url = ''/api/optimize'',
      body = None,
      params = [(''strategy_names'', Names strategy_names),
                (''run_in_background'',
                   Flag (case run_in_background of None \<Rightarrow> False | Some b \<Rightarrow> b))]\<rparr>"


subsection \<open>Strategy comparison views: sorted entries and their markers\<close>

text \<open>
  \<^verbatim>\<open>Array.prototype.sort\<close> with a comparator is the engine's built-in stable sort; it is
  embedded as a stable insertion sort over the same comparator (an element goes before the
  first element it does not compare greater than).
\<close>

fun insert_cmp :: "('a \<Rightarrow> 'a \<Rightarrow> int) \<Rightarrow> 'a \<Rightarrow> 'a list \<Rightarrow> 'a list" where
  "insert_cmp cmp x [] = [x]"
| "insert_cmp cmp x (y # ys) = (if cmp x y \<le> 0 then x # y # ys else y # insert_cmp cmp x ys)"

definition js_sort :: "('a \<Rightarrow> 'a \<Rightarrow> int) \<Rightarrow> 'a list \<Rightarrow> 'a list" where
  "js_sort cmp xs = foldr (insert_cmp cmp) xs []"

text \<open>The comparator of both views: \<^verbatim>\<open>([,a], [,b]) => b.boats_placed - a.boats_placed\<close>.\<close>

definition by_boats_placed :: "string \<times> evaluation \<Rightarrow> string \<times> evaluation \<Rightarrow> int" where
  "by_boats_placed a b = boats_placed (snd b) - boats_placed (snd a)"

definition sorted_entries :: "evaluations option \<Rightarrow> evaluations" where
  "sorted_entries evs = js_sort by_boats_placed (case evs of None \<Rightarrow> [] | Some es \<Rightarrow> es)"

datatype marker = BestBadge | Highlighted | Starred | Ringed | SelectedTab

record view_entry =
  entry_name :: string
  entry_evaluation :: evaluation
  entry_markers :: "marker list"

text \<open>
  \<^verbatim>\<open>strategyName === optimizationResult.auto_selected_best?.name\<close>: never true when no
  best strategy was selected.
\<close>

definition is_auto_selected :: "enhanced_result \<Rightarrow> string \<Rightarrow> bool" where
  "is_auto_selected res strategyName =
     (case auto_selected_best res of None \<Rightarrow> False | Some b \<Rightarrow> strategyName = name b)"

text \<open>The result grid of the Optimization page: the badge goes with \<^verbatim>\<open>index === 0\<close>.\<close>

definition grid_card :: "enhanced_result \<Rightarrow> nat \<Rightarrow> string \<times> evaluation \<Rightarrow> view_entry" where
  "grid_card res index e =
     \<lparr>entry_name = fst e, entry_evaluation = snd e,
      entry_markers = (if index = 0 then [BestBadge] else [])
                      @ (if is_auto_selected res (fst e) then [Highlighted, Starred] else [])\<rparr>"

definition result_grid :: "enhanced_result \<Rightarrow> view_entry list" where
  "result_grid res =
     (let es = sorted_entries (res_evaluations res)
      in map (\<lambda>(index, e). grid_card res index e) (zip [0..<length es] es))"

text \<open>The strategy tabs of the map page: the callback takes no index.\<close>

definition strategy_tab :: "enhanced_result \<Rightarrow> string option \<Rightarrow> string \<times> evaluation \<Rightarrow> view_entry" where
  "strategy_tab res selected e =
     \<lparr>entry_name = fst e, entry_evaluation = snd e,
      entry_markers = (if selected = Some (fst e) then [SelectedTab] else [])
                      @ (if is_auto_selected res (fst e) then [Ringed, Starred] else [])\<rparr>"

definition strategy_tabs :: "enhanced_result \<Rightarrow> string option \<Rightarrow> view_entry list" where
  "strategy_tabs res selected = map (strategy_tab res selected) (sorted_entries (res_evaluations res))"

subsection \<open>Map page (Visualization): state, slot display and event handlers\<close>

record map_slot =
  ident :: int
  slot_type :: string
  status :: string
  dock_id :: int

record slot_stats =
  totalGuest :: nat
  availableGuest :: nat
  totalFlex :: nat
  availableFlex :: nat

record visualization =
  slots :: "map_slot list"
  selectedSlot :: "map_slot option"
  hoveredSlot :: "map_slot option"
  stats :: slot_stats
  vis_optimizationResult :: "enhanced_result option"
  selectedStrategy :: "string option"
  showOptimization :: bool
  strategyPlacements :: "string \<rightharpoonup> placement list"

definition initial_visualization :: visualization where
  "initial_visualization =
     \<lparr>slots = [], selectedSlot = None, hoveredSlot = None,
      stats = \<lparr>totalGuest = 0, availableGuest = 0, totalFlex = 0, availableFlex = 0\<rparr>,
      vis_optimizationResult = None, selectedStrategy = None, showOptimization = False,
      strategyPlacements = Map.empty\<rparr>"

text \<open>
  The placements shown for the current selection:
  \<^verbatim>\<open>showOptimization && selectedStrategy && strategyPlacements[selectedStrategy]\<close>
  (an empty strategy name is falsy).
\<close>

definition shown_placements :: "visualization \<Rightarrow> placement list option" where
  "shown_placements st =
     (if \<not> showOptimization st then None
      else case selectedStrategy st of
             None \<Rightarrow> None
           | Some s \<Rightarrow> if s = [] then None else strategyPlacements st s)"

definition getBoatInfoForSlot :: "visualization \<Rightarrow> int \<Rightarrow> placement option" where
  "getBoatInfoForSlot st slotId =
     (case shown_placements st of
        None \<Rightarrow> None
      | Some ps \<Rightarrow> find (\<lambda>p. slot_id p = slotId) ps)"

datatype slot_colour = Blue500 | Red600 | Green500 | Red500 | Yellow500 | Gray500 | Blue300

definition getSlotColor :: "visualization \<Rightarrow> map_slot \<Rightarrow> slot_colour" where
  "getSlotColor st slot =
     (if (case shown_placements st of
            None \<Rightarrow> False
          | Some ps \<Rightarrow> find (\<lambda>p. slot_id p = ident slot) ps \<noteq> None)
      then Blue500
      else if slot_type slot = ''permanent'' then Red600
      else if status slot = ''available'' then Green500
      else if status slot = ''occupied'' then Red500
      else if status slot = ''reserved'' then Yellow500
      else if status slot = ''maintenance'' then Gray500
      else Blue300)"

text \<open>
  What the map writes into a slot's rectangle (\<^verbatim>\<open>B<boat_id>\<close> or the slot's own id),
  the boat named in its title, and the boat block of the hover tooltip.
\<close>

datatype slot_text = BoatText int | SlotText int

definition slot_label :: "visualization \<Rightarrow> map_slot \<Rightarrow> slot_text" where
  "slot_label st slot =
     (case getBoatInfoForSlot st (ident slot) of
        Some boatInfo \<Rightarrow> BoatText (boat_id boatInfo)
      | None \<Rightarrow> SlotText (ident slot))"

definition slot_title_boat :: "visualization \<Rightarrow> map_slot \<Rightarrow> int option" where
  "slot_title_boat st slot = map_option boat_id (getBoatInfoForSlot st (ident slot))"

definition tooltip_boat :: "visualization \<Rightarrow> placement option" where
  "tooltip_boat st =
     (case hoveredSlot st of
        None \<Rightarrow> None
      | Some h \<Rightarrow> if showOptimization st then getBoatInfoForSlot st (ident h) else None)"

definition handleSlotClick :: "visualization \<Rightarrow> map_slot \<Rightarrow> visualization" where
  "handleSlotClick st slot =
     (if slot_type slot = ''permanent'' then st else st\<lparr>selectedSlot := Some slot\<rparr>)"

definition compute_stats :: "map_slot list \<Rightarrow> slot_stats" where
  "compute_stats ss =
     (let guestSlots = filter (\<lambda>slot. slot_type slot = ''guest'') ss;
          flexSlots = filter (\<lambda>slot. slot_type slot = ''flex'') ss
      in \<lparr>totalGuest = length guestSlots,
          availableGuest = length (filter (\<lambda>slot. status slot = ''available'') guestSlots),
          totalFlex = length flexSlots,
          availableFlex = length (filter (\<lambda>slot. status slot = ''available'') flexSlots)\<rparr>)"

definition set_status :: "int \<Rightarrow> string \<Rightarrow> map_slot \<Rightarrow> map_slot" where
  "set_status i new slot = (if ident slot = i then slot\<lparr>status := new\<rparr> else slot)"

text \<open>
  \<^verbatim>\<open>handleStatusChange\<close>: the optimistic updates, then the awaited API call; when it
  rejects, the \<^verbatim>\<open>catch\<close> only logs and the statistics stay as they were.
\<close>

definition handleStatusChange :: "visualization \<Rightarrow> int \<Rightarrow> string \<Rightarrow> bool \<Rightarrow> visualization" where
  "handleStatusChange st i new api_ok =
     (let st1 = st\<lparr>slots := map (set_status i new) (slots st)\<rparr>;
          st2 = (case selectedSlot st of
                   None \<Rightarrow> st1
                 | Some sel \<Rightarrow>
                     if ident sel = i
                     then st1\<lparr>selectedSlot := map_option (\<lambda>prev. prev\<lparr>status := new\<rparr>) (selectedSlot st1)\<rparr>
                     else st1)
      in if api_ok then st2\<lparr>stats := compute_stats (map (set_status i new) (slots st))\<rparr> else st2)"

definition toggleOptimizationView :: "visualization \<Rightarrow> visualization" where
  "toggleOptimizationView st =
     (let st1 = st\<lparr>showOptimization := \<not> showOptimization st\<rparr>
      in case (if \<not> showOptimization st
               then Option.bind (vis_optimizationResult st) auto_selected_best else None) of
           Some b \<Rightarrow> st1\<lparr>selectedStrategy := Some (name b)\<rparr>
         | None \<Rightarrow> st1\<lparr>selectedStrategy := None\<rparr>)"

text \<open>
  \<^verbatim>\<open>loadOptimizationResult\<close> on a stored result (the \<^verbatim>\<open>optimizationComplete\<close> listener
  sets the same fields).
\<close>

definition loadOptimizationResult :: "visualization \<Rightarrow> enhanced_result \<Rightarrow> visualization" where
  "loadOptimizationResult st result =
     (let st1 = st\<lparr>vis_optimizationResult := Some result, showOptimization := True,
                    strategyPlacements := map_of (strategy_results result)\<rparr>
      in case auto_selected_best result of
           Some b \<Rightarrow> st1\<lparr>selectedStrategy := Some (name b)\<rparr>
         | None \<Rightarrow> st1)"

definition clearOptimization :: "visualization \<Rightarrow> visualization" where
  "clearOptimization st =
     st\<lparr>vis_optimizationResult := None, showOptimization := False, selectedStrategy := None\<rparr>"

datatype map_event =
    DataLoaded "map_slot list"
  | SlotClick map_slot
  | StatusChange int string bool
  | CloseDetail
  | Hover "map_slot option"
  | ToggleView
  | SelectStrategy string
  | ResultLoaded enhanced_result
  | ClearResult

fun handle_event :: "visualization \<Rightarrow> map_event \<Rightarrow> visualization" where
  "handle_event st (DataLoaded ss) = st\<lparr>slots := ss, stats := compute_stats ss\<rparr>"
| "handle_event st (SlotClick slot) = handleSlotClick st slot"
| "handle_event st (StatusChange i new api_ok) = handleStatusChange st i new api_ok"
| "handle_event st CloseDetail = st\<lparr>selectedSlot := None\<rparr>"
| "handle_event st (Hover h) = st\<lparr>hoveredSlot := h\<rparr>"
| "handle_event st ToggleView = toggleOptimizationView st"
| "handle_event st (SelectStrategy s) = st\<lparr>selectedStrategy := Some s\<rparr>"
| "handle_event st (ResultLoaded r) = loadOptimizationResult st r"
| "handle_event st ClearResult = clearOptimization st"

definition run_events :: "map_event list \<Rightarrow> visualization" where
  "run_events es = foldl handle_event initial_visualization es"

text \<open>
  The detail panel is rendered for \<^verbatim>\<open>!showOptimization && selectedSlot\<close>; its
  status buttons only when the selected slot is not permanent.
\<close>

definition detail_panel :: "visualization \<Rightarrow> map_slot option" where
  "detail_panel st = (if showOptimization st then None else selectedSlot st)"

definition status_actions_shown :: "visualization \<Rightarrow> bool" where
  "status_actions_shown st =
     (case detail_panel st of None \<Rightarrow> False | Some s \<Rightarrow> slot_type s \<noteq> ''permanent'')"


subsection \<open>Slot list page: the sample slot table\<close>

text \<open>
  The entries of \<^verbatim>\<open>slotsData\<close> with their numeric fields, identifiers, dock and status
  (decimal literals as exact fractions; the free-text fields, facilities and maintenance
  history take no part in any comparison and are left out).
\<close>

record slot_entry =
  entry_id :: nat
  slotId :: string
  dock :: string
  width :: rat
  slot_length :: rat
  maxBoatWidth :: rat
  maxBoatLength :: rat
  depth :: rat
  entry_status :: string
  pricePerDay :: nat
  pricePerMonth :: nat

definition slotsData :: "slot_entry list" where
  "slotsData =
     [\<lparr>entry_id = 1, slotId = ''A01'', dock = ''A'', width = 35/10, slot_length = 12,
       maxBoatWidth = 32/10, maxBoatLength = 11, depth = 25/10, entry_status = ''occupied'',
       pricePerDay = 180, pricePerMonth = 3500\<rparr>,
      \<lparr>entry_id = 2, slotId = ''A02'', dock = ''A'', width = 38/10, slot_length = 14,
       maxBoatWidth = 35/10, maxBoatLength = 13, depth = 25/10, entry_status = ''available'',
       pricePerDay = 210, pricePerMonth = 4100\<rparr>,
      \<lparr>entry_id = 3, slotId = ''A03'', dock = ''A'', width = 42/10, slot_length = 16,
       maxBoatWidth = 39/10, maxBoatLength = 15, depth = 28/10, entry_status = ''reserved'',
       pricePerDay = 250, pricePerMonth = 4800\<rparr>,
      \<lparr>entry_id = 4, slotId = ''B01'', dock = ''B'', width = 32/10, slot_length = 10,
       maxBoatWidth = 29/10, maxBoatLength = 9, depth = 22/10, entry_status = ''maintenance'',
       pricePerDay = 160, pricePerMonth = 3100\<rparr>,
      \<lparr>entry_id = 5, slotId = ''B02'', dock = ''B'', width = 35/10, slot_length = 12,
       maxBoatWidth = 32/10, maxBoatLength = 11, depth = 25/10, entry_status = ''occupied'',
       pricePerDay = 180, pricePerMonth = 3500\<rparr>,
      \<lparr>entry_id = 6, slotId = ''C01'', dock = ''C'', width = 5, slot_length = 20,
       maxBoatWidth = 47/10, maxBoatLength = 19, depth = 35/10, entry_status = ''occupied'',
       pricePerDay = 350, pricePerMonth = 6500\<rparr>,
      \<lparr>entry_id = 7, slotId = ''C02'', dock = ''C'', width = 48/10, slot_length = 18,
       maxBoatWidth = 45/10, maxBoatLength = 17, depth = 32/10, entry_status = ''available'',
       pricePerDay = 320, pricePerMonth = 6000\<rparr>,
      \<lparr>entry_id = 8, slotId = ''D01'', dock = ''D'', width = 6, slot_length = 25,
       maxBoatWidth = 57/10, maxBoatLength = 24, depth = 4, entry_status = ''occupied'',
       pricePerDay = 450, pricePerMonth = 8500\<rparr>,
      \<lparr>entry_id = 9, slotId = ''D02'', dock = ''D'', width = 55/10, slot_length = 22,
       maxBoatWidth = 52/10, maxBoatLength = 21, depth = 38/10, entry_status = ''available'',
       pricePerDay = 400, pricePerMonth = 7800\<rparr>]"

definition slot_invariant :: "slot_entry \<Rightarrow> bool" where
  "slot_invariant s \<longleftrightarrow> maxBoatWidth s \<le> width s \<and> maxBoatLength s \<le> slot_length s"

section \<open>Assignment engine, from the specification\<close>

text \<open>
  Modelled from the spec: the feasibility checker (\<open>fits\<close>, \<open>overlaps\<close>, \<open>can_place\<close>) and
  the strategy library with its run loop are server code that is not among the front-end
  sources; the definitions below follow sections 3, 4.2 and 4.3 of the specification.
  A strategy is its boat ordering and its slot-choice rule; every placement goes through
  \<open>can_place\<close>, a boat that cannot be placed is left out, and the assigned interval is the
  boat's requested interval.
\<close>

text \<open>Modelled from the spec: Boat, Slot and Assignment of section 3.\<close>

record boat =
  boat_ident :: nat
  boat_length :: rat
  boat_width :: rat
  arrival :: int
  departure :: int

datatype slot_category = Permanent | Flexible | Transient

record harbour_slot =
  hs_ident :: nat
  hs_dock :: nat
  hs_width :: rat
  hs_length :: rat
  max_boat_width :: rat
  max_boat_length :: rat
  category :: slot_category
  price :: nat

record assignment =
  a_boat :: nat
  a_slot :: nat
  a_start :: int
  a_end :: int
  a_strategy :: string

text \<open>Modelled from the spec: \<open>fits\<close> (section 4.2).\<close>

definition fits :: "boat \<Rightarrow> harbour_slot \<Rightarrow> bool" where
  "fits b s \<longleftrightarrow> boat_length b \<le> max_boat_length s \<and> boat_width b \<le> max_boat_width s"

text \<open>Modelled from the spec: \<open>overlaps\<close>, the half-open interval test (section 4.2).\<close>

definition overlaps :: "int \<times> int \<Rightarrow> int \<times> int \<Rightarrow> bool" where
  "overlaps A B \<longleftrightarrow> fst A < snd B \<and> fst B < snd A"

text \<open>Modelled from the spec: the effective interval \<open>[start, end)\<close> of an assignment.\<close>

definition interval :: "assignment \<Rightarrow> int \<times> int" where
  "interval a = (a_start a, a_end a)"

text \<open>Modelled from the spec: \<open>can_place\<close> (section 4.2).\<close>

definition can_place :: "boat \<Rightarrow> harbour_slot \<Rightarrow> assignment list \<Rightarrow> bool" where
  "can_place b s existing_for_slot \<longleftrightarrow>
     fits b s \<and> list_all (\<lambda>a. \<not> overlaps (arrival b, departure b) (interval a)) existing_for_slot"

text \<open>
  Modelled from the spec: a strategy of section 4.3, which differs from the others only in
  its ordering heuristic and its slot-selection rule.
\<close>

record strategy =
  strat_name :: string
  boat_order :: "boat list \<Rightarrow> boat list"
  slot_choice :: "boat \<Rightarrow> harbour_slot list \<Rightarrow> harbour_slot option"

text \<open>Modelled from the spec: the existing assignments of one slot.\<close>

definition assignments_for_slot :: "assignment list \<Rightarrow> harbour_slot \<Rightarrow> assignment list" where
  "assignments_for_slot acc s = filter (\<lambda>a. a_slot a = hs_ident s) acc"

text \<open>
  Modelled from the spec: one placement step of a strategy run (section 4.3). The rule
  chooses among the slots \<open>can_place\<close> admits, and the chosen slot is checked by
  \<open>can_place\<close> before the assignment is emitted.
\<close>

definition place_boat :: "strategy \<Rightarrow> harbour_slot list \<Rightarrow> assignment list \<Rightarrow> boat \<Rightarrow> assignment list" where
  "place_boat strat all_slots acc b =
     (let feasible = filter (\<lambda>s. can_place b s (assignments_for_slot acc s)) all_slots
      in case slot_choice strat b feasible of
           None \<Rightarrow> acc
         | Some s \<Rightarrow>
             if can_place b s (assignments_for_slot acc s)
             then acc @ [\<lparr>a_boat = boat_ident b, a_slot = hs_ident s, a_start = arrival b,
                          a_end = departure b, a_strategy = strat_name strat\<rparr>]
             else acc)"

text \<open>Modelled from the spec: a strategy run over a snapshot (section 4.3).\<close>

definition run_strategy :: "strategy \<Rightarrow> boat list \<Rightarrow> harbour_slot list \<Rightarrow> assignment list" where
  "run_strategy strat boats all_slots = foldl (place_boat strat all_slots) [] (boat_order strat boats)"

text \<open>Modelled from the spec: the rule that takes the first feasible slot (table of section 4.3).\<close>

definition first_feasible :: "boat \<Rightarrow> harbour_slot list \<Rightarrow> harbour_slot option" where
  "first_feasible b feasible = (case feasible of [] \<Rightarrow> None | s # _ \<Rightarrow> Some s)"

text \<open>Modelled from the spec: first-fit, boats in input order.\<close>

definition first_fit :: strategy where
  "first_fit = \<lparr>strat_name = ''first_fit'', boat_order = (\<lambda>bs. bs), slot_choice = first_feasible\<rparr>"

text \<open>Modelled from the spec: earliest-deadline-first, boats by ascending departure.\<close>

definition earliest_deadline_first :: strategy where
  "earliest_deadline_first =
     \<lparr>strat_name = ''earliest_deadline_first'', boat_order = sort_key departure,
      slot_choice = first_feasible\<rparr>"

text \<open>
  Modelled from the spec: the relationship invariant of section 3, no two assignments of
  one slot with overlapping intervals.
\<close>

fun no_double_booking :: "assignment list \<Rightarrow> bool" where
  "no_double_booking [] = True"
| "no_double_booking (a # as) \<longleftrightarrow>
     list_all (\<lambda>b. a_slot a = a_slot b \<longrightarrow> \<not> overlaps (interval a) (interval b)) as
     \<and> no_double_booking as"

section \<open>Notions used in the statements\<close>

text \<open>Non-increasing order of \<open>boats_placed\<close> on evaluation entries.\<close>

definition placed_desc :: "string \<times> evaluation \<Rightarrow> string \<times> evaluation \<Rightarrow> bool" where
  "placed_desc a b \<longleftrightarrow> boats_placed (snd b) \<le> boats_placed (snd a)"

text \<open>The evaluation entry a rendered card or tab stands for.\<close>

definition entry_pair :: "view_entry \<Rightarrow> string \<times> evaluation" where
  "entry_pair e = (entry_name e, entry_evaluation e)"

text \<open>The recommendations a narrative contributes (none when it is missing).\<close>

definition narrative_recommendations :: "gpt_analysis option \<Rightarrow> recommendation list" where
  "narrative_recommendations gpt =
     (case gpt of None \<Rightarrow> []
      | Some g \<Rightarrow> (case recommendations g of None \<Rightarrow> [] | Some rs \<Rightarrow> map Narrative rs))"

text \<open>The selected slot, if any, is not a permanent one.\<close>

definition selection_ok :: "visualization \<Rightarrow> bool" where
  "selection_ok st \<longleftrightarrow>
     (case selectedSlot st of None \<Rightarrow> True | Some s \<Rightarrow> slot_type s \<noteq> ''permanent'')"

section \<open>Concrete inputs\<close>

text \<open>Two strategies that tie on placed boats and differ in utilization and score.\<close>

definition tied_evaluations :: evaluations where
  "tied_evaluations =
     [(''first_fit'', \<lparr>boats_placed = 3, total_boats = 4, placement_rate = 3/4,
                       utilization = 1/4, score = 6/10\<rparr>),
      (''best_fit'', \<lparr>boats_placed = 3, total_boats = 4, placement_rate = 3/4,
                      utilization = 1/2, score = 27/40\<rparr>)]"

text \<open>Two evaluated strategies, neither of which placed a boat.\<close>

definition unplaced_evaluations :: evaluations where
  "unplaced_evaluations =
     [(''first_fit'', \<lparr>boats_placed = 0, total_boats = 3, placement_rate = 0,
                       utilization = 0, score = 0\<rparr>),
      (''best_fit'', \<lparr>boats_placed = 0, total_boats = 3, placement_rate = 0,
                      utilization = 0, score = 0\<rparr>)]"

text \<open>
  A response for an empty boats list, whose evaluation carries the placement rate 1
  and the utilization 0.
\<close>

definition empty_boats_evaluation :: evaluation where
  "empty_boats_evaluation =
     \<lparr>boats_placed = 0, total_boats = 0, placement_rate = 1, utilization = 0, score = 7/10\<rparr>"

definition empty_boats_response :: response_data where
  "empty_boats_response =
     \<lparr>strategies = Some [(''first_fit'', [])],
      evaluations = Some [(''first_fit'', empty_boats_evaluation)],
      gpt_analysis = None,
      other_data = []\<rparr>"

text \<open>The enhanced result of a response with the tied evaluations and no narrative.\<close>

definition tied_result :: enhanced_result where
  "tied_result =
     enhanceResult \<lparr>strategies = None, evaluations = Some tied_evaluations,
                    gpt_analysis = None, other_data = []\<rparr>"

text \<open>A page with two strategies loaded, and a response that carries a narrative.\<close>

definition demo_page :: optimization_page where
  "demo_page =
     \<lparr>loading = False,
      page_strategies = [(''first_fit'', ''First fit''), (''best_fit'', ''Best fit'')],
      optimizationResult = None, page_error = NoError, currentStrategy = NoLabel,
      progress = 0\<rparr>"

definition tied_response :: response_data where
  "tied_response =
     \<lparr>strategies = Some [(''first_fit'', [\<lparr>raw_boat_id = 1, raw_slot_id = 7,
                             raw_start_time = ''2025-06-01'', raw_end_time = ''2025-06-05''\<rparr>]),
                         (''best_fit'', [])],
      evaluations = Some tied_evaluations,
      gpt_analysis = Some \<lparr>recommendations = Some [''Use first_fit''],
                            other_keys = [(''summary'', ''ok'')]\<rparr>,
      other_data = []\<rparr>"

text \<open>
  A strategy that gives slot 7 to boat 12 and then, for the following days, to boat 13;
  the map showing it with the pointer over slot 7.
\<close>

definition shared_slot_placements :: "placement list" where
  "shared_slot_placements =
     [\<lparr>boat_id = 11, slot_id = 4, start_time = ''2025-06-01'', end_time = ''2025-06-03'',
       strategy_name = ''first_fit''\<rparr>,
      \<lparr>boat_id = 12, slot_id = 7, start_time = ''2025-06-01'', end_time = ''2025-06-05'',
       strategy_name = ''first_fit''\<rparr>,
      \<lparr>boat_id = 13, slot_id = 7, start_time = ''2025-06-05'', end_time = ''2025-06-09'',
       strategy_name = ''first_fit''\<rparr>]"

definition guest_slot :: map_slot where
  "guest_slot = \<lparr>ident = 7, slot_type = ''guest'', status = ''available'', dock_id = 1\<rparr>"

definition permanent_slot :: map_slot where
  "permanent_slot = \<lparr>ident = 2, slot_type = ''permanent'', status = ''occupied'', dock_id = 1\<rparr>"

definition shared_slot_view :: visualization where
  "shared_slot_view =
     initial_visualization\<lparr>slots := [permanent_slot, guest_slot], hoveredSlot := Some guest_slot,
        selectedStrategy := Some ''first_fit'', showOptimization := True,
        strategyPlacements := [''first_fit'' \<mapsto> shared_slot_placements]\<rparr>"

text \<open>
  Five boats and two slots for the engine: three boats of length 6 with staggered stays,
  one boat longer than every slot, and one whose stay collides on both slots.
\<close>

definition scenario_boats :: "boat list" where
  "scenario_boats =
     [\<lparr>boat_ident = 1, boat_length = 6, boat_width = 2, arrival = 0, departure = 10\<rparr>,
      \<lparr>boat_ident = 2, boat_length = 6, boat_width = 2, arrival = 5, departure = 15\<rparr>,
      \<lparr>boat_ident = 3, boat_length = 6, boat_width = 2, arrival = 10, departure = 20\<rparr>,
      \<lparr>boat_ident = 4, boat_length = 12, boat_width = 2, arrival = 30, departure = 40\<rparr>,
      \<lparr>boat_ident = 5, boat_length = 6, boat_width = 2, arrival = 8, departure = 12\<rparr>]"

definition scenario_slots :: "harbour_slot list" where
  "scenario_slots =
     [\<lparr>hs_ident = 1, hs_dock = 1, hs_width = 4, hs_length = 11, max_boat_width = 3,
       max_boat_length = 10, category = Flexible, price = 200\<rparr>,
      \<lparr>hs_ident = 2, hs_dock = 1, hs_width = 4, hs_length = 11, max_boat_width = 3,
       max_boat_length = 10, category = Transient, price = 180\<rparr>]"

section \<open>Properties of the front end\<close>

subsection \<open>Selection of the best strategy\<close>

text \<open>
  The loop of \<^verbatim>\<open>findBestStrategy\<close> keeps, after any prefix of the entries, the largest
  count seen so far (starting from 0) together with the first entry that reached it.
\<close>

lemma findBest_fold_inv:
  "case foldl findBest_step (None, 0) evs of (b', m') \<Rightarrow>
     (\<forall>j<length evs. boats_placed (snd (evs ! j)) \<le> m') \<and>
     (case b' of
        None \<Rightarrow> m' = 0
      | Some s \<Rightarrow> 0 < m' \<and> (\<exists>i<length evs. evs ! i = (name s, evaluation s)
            \<and> boats_placed (evaluation s) = m'
            \<and> (\<forall>j<i. boats_placed (snd (evs ! j)) < m')))"
proof (induction evs rule: rev_induct)
  case Nil
  show ?case by simp
next
  case (snoc x evs)
  obtain b m where fm: "foldl findBest_step (None, 0) evs = (b, m)"
    by (cases "foldl findBest_step (None, 0) evs")
  obtain n e where x: "x = (n, e)" by (cases x)
  from snoc fm have le: "\<forall>j<length evs. boats_placed (snd (evs ! j)) \<le> m"
    and bcase: "case b of None \<Rightarrow> m = 0
      | Some s \<Rightarrow> 0 < m \<and> (\<exists>i<length evs. evs ! i = (name s, evaluation s)
            \<and> boats_placed (evaluation s) = m
            \<and> (\<forall>j<i. boats_placed (snd (evs ! j)) < m))"
    by simp_all
  have m0: "0 \<le> m" using bcase by (cases b) auto
  show ?case
  proof (cases "boats_placed e > m")
    case True
    have "\<forall>j<length (evs @ [x]). boats_placed (snd ((evs @ [x]) ! j)) \<le> boats_placed e"
      using le True x by (auto simp: nth_append less_Suc_eq)
    moreover have "\<forall>j<length evs. boats_placed (snd ((evs @ [x]) ! j)) < boats_placed e"
      using le True by (auto simp: nth_append) 
    ultimately show ?thesis using True fm x m0
      by (auto intro!: exI[of _ "length evs"])
  next
    case False
    have "\<forall>j<length (evs @ [x]). boats_placed (snd ((evs @ [x]) ! j)) \<le> m"
      using le False x by (auto simp: nth_append less_Suc_eq)
    moreover have "case b of None \<Rightarrow> m = 0
      | Some s \<Rightarrow> 0 < m \<and> (\<exists>i<length (evs @ [x]). (evs @ [x]) ! i = (name s, evaluation s)
            \<and> boats_placed (evaluation s) = m
            \<and> (\<forall>j<i. boats_placed (snd ((evs @ [x]) ! j)) < m))"
    proof (cases b)
      case None
      then show ?thesis using bcase by simp
    next
      case (Some s)
      with bcase obtain i where i: "i < length evs" "evs ! i = (name s, evaluation s)"
        "boats_placed (evaluation s) = m" "\<forall>j<i. boats_placed (snd (evs ! j)) < m" and "0 < m"
        by auto
      then show ?thesis using Some
        by (auto intro!: exI[of _ i] simp: nth_append)
    qed
    ultimately show ?thesis using False fm x by simp
  qed
qed

lemma findBestStrategy_Some:
  assumes "findBestStrategy evs = Some b"
  shows "0 < boats_placed (evaluation b) \<and>
    (\<exists>i<length evs. evs ! i = (name b, evaluation b)
       \<and> (\<forall>j<length evs. boats_placed (snd (evs ! j)) \<le> boats_placed (evaluation b))
       \<and> (\<forall>j<i. boats_placed (snd (evs ! j)) < boats_placed (evaluation b)))"
proof -
  obtain b' m where fm: "foldl findBest_step (None, 0) evs = (b', m)"
    by (cases "foldl findBest_step (None, 0) evs")
  with assms have b': "b' = Some b" by (simp add: findBestStrategy_def)
  from findBest_fold_inv[of evs] fm b' show ?thesis by auto
qed

lemma findBestStrategy_None:
  assumes "findBestStrategy evs = None"
  shows "\<forall>e\<in>set evs. boats_placed (snd e) \<le> 0"
proof -
  obtain b' m where fm: "foldl findBest_step (None, 0) evs = (b', m)"
    by (cases "foldl findBest_step (None, 0) evs")
  with assms have b': "b' = None" by (simp add: findBestStrategy_def)
  from findBest_fold_inv[of evs] fm b'
  have le: "\<forall>j<length evs. boats_placed (snd (evs ! j)) \<le> 0" by auto
  show ?thesis
  proof
    fix e assume "e \<in> set evs"
    then obtain j where "j < length evs" "evs ! j = e" by (auto simp: in_set_conv_nth)
    with le show "boats_placed (snd e) \<le> 0" by auto
  qed
qed

lemma findBestStrategy_None_iff:
  "findBestStrategy evs = None \<longleftrightarrow> (\<forall>e\<in>set evs. boats_placed (snd e) \<le> 0)"
proof
  assume "findBestStrategy evs = None"
  then show "\<forall>e\<in>set evs. boats_placed (snd e) \<le> 0" by (rule findBestStrategy_None)
next
  assume a: "\<forall>e\<in>set evs. boats_placed (snd e) \<le> 0"
  show "findBestStrategy evs = None"
  proof (cases "findBestStrategy evs")
    case None then show ?thesis .
  next
    case (Some b)
    from findBestStrategy_Some[OF Some] obtain i where "i < length evs"
      "evs ! i = (name b, evaluation b)" "0 < boats_placed (evaluation b)" by auto
    then have "(name b, evaluation b) \<in> set evs" by (metis nth_mem)
    with a have "boats_placed (evaluation b) \<le> 0" by fastforce
    with \<open>0 < boats_placed (evaluation b)\<close> show ?thesis by simp
  qed
qed


text \<open>
  Claim C1 says that a non-empty set of evaluations always yields a selected strategy, one
  with the maximal \<open>boats_placed\<close>. The running maximum starts at 0 and is only replaced by a
  strictly larger count, so for evaluated strategies that all placed no boat the function
  returns \<^verbatim>\<open>null\<close>: nothing is selected although the set is non-empty.
\<close>

theorem findBestStrategy_unplaced_selects_none:
  "unplaced_evaluations \<noteq> [] \<and> findBestStrategy unplaced_evaluations = None"
  by (simp add: unplaced_evaluations_def findBestStrategy_def)

text \<open>
  Claim C2 as stated (among strategies with equal \<open>boats_placed\<close> the one with the higher
  score, hence the higher utilization, is selected) fails: for two tied strategies the
  first entry is selected although the second has the higher score and utilization.
\<close>

theorem findBestStrategy_ignores_score:
  "findBestStrategy tied_evaluations
     = Some \<lparr>name = ''first_fit'', evaluation = snd (tied_evaluations ! 0)\<rparr>
   \<and> boats_placed (snd (tied_evaluations ! 0)) = boats_placed (snd (tied_evaluations ! 1))
   \<and> score (snd (tied_evaluations ! 0)) < score (snd (tied_evaluations ! 1))
   \<and> utilization (snd (tied_evaluations ! 0)) < utilization (snd (tied_evaluations ! 1))"
  by (simp add: tied_evaluations_def findBestStrategy_def)

text \<open>
  Claim C2, amended: of two strategies with equal \<open>boats_placed\<close> the one later in the
  entry order of the evaluations is never selected, whatever the scores and utilizations;
  a selected strategy is the first entry that attains the maximal \<open>boats_placed\<close>.
\<close>

theorem findBestStrategy_tie_keeps_first:
  assumes dist: "distinct (map fst evs)"
    and ik: "i < k" and k: "k < length evs"
    and tie: "boats_placed (snd (evs ! i)) = boats_placed (snd (evs ! k))"
  shows "findBestStrategy evs \<noteq> Some \<lparr>name = fst (evs ! k), evaluation = snd (evs ! k)\<rparr>
    \<and> (\<forall>b. findBestStrategy evs = Some b \<longrightarrow>
          (\<exists>f<length evs. evs ! f = (name b, evaluation b)
             \<and> (\<forall>j<length evs. boats_placed (snd (evs ! j)) \<le> boats_placed (evaluation b))
             \<and> (\<forall>j<f. boats_placed (snd (evs ! j)) < boats_placed (evaluation b))))"
proof
  show "findBestStrategy evs \<noteq> Some \<lparr>name = fst (evs ! k), evaluation = snd (evs ! k)\<rparr>"
  proof
    assume sel: "findBestStrategy evs = Some \<lparr>name = fst (evs ! k), evaluation = snd (evs ! k)\<rparr>"
    from findBestStrategy_Some[OF sel] obtain f where f: "f < length evs"
      and at: "evs ! f = (fst (evs ! k), snd (evs ! k))"
      and before: "\<forall>j<f. boats_placed (snd (evs ! j)) < boats_placed (snd (evs ! k))"
      by auto
    from at have "map fst evs ! f = map fst evs ! k" using f k by simp
    moreover have "f < length (map fst evs)" "k < length (map fst evs)" using f k by simp_all
    ultimately have "f = k" using dist by (simp only: nth_eq_iff_index_eq)
    with before ik have "boats_placed (snd (evs ! i)) < boats_placed (snd (evs ! k))" by simp
    with tie show False by simp
  qed
next
  show "\<forall>b. findBestStrategy evs = Some b \<longrightarrow>
          (\<exists>f<length evs. evs ! f = (name b, evaluation b)
             \<and> (\<forall>j<length evs. boats_placed (snd (evs ! j)) \<le> boats_placed (evaluation b))
             \<and> (\<forall>j<f. boats_placed (snd (evs ! j)) < boats_placed (evaluation b)))"
    using findBestStrategy_Some by blast
qed

theorem findBestStrategy_tie_keeps_first_witness:
  "distinct (map fst tied_evaluations) \<and> (0::nat) < 1 \<and> 1 < length tied_evaluations
   \<and> boats_placed (snd (tied_evaluations ! 0)) = boats_placed (snd (tied_evaluations ! 1))
   \<and> score (snd (tied_evaluations ! 0)) < score (snd (tied_evaluations ! 1))
   \<and> findBestStrategy tied_evaluations
        \<noteq> Some \<lparr>name = fst (tied_evaluations ! 1), evaluation = snd (tied_evaluations ! 1)\<rparr>
   \<and> findBestStrategy tied_evaluations
        = Some \<lparr>name = ''first_fit'', evaluation = snd (tied_evaluations ! 0)\<rparr>
   \<and> (\<exists>f<length tied_evaluations.
          tied_evaluations ! f = (''first_fit'', snd (tied_evaluations ! 0))
          \<and> (\<forall>j<length tied_evaluations. boats_placed (snd (tied_evaluations ! j)) \<le> 3)
          \<and> (\<forall>j<f. boats_placed (snd (tied_evaluations ! j)) < 3))"
proof -
  have h: "distinct (map fst tied_evaluations)" "(0::nat) < 1" "1 < length tied_evaluations"
    "boats_placed (snd (tied_evaluations ! 0)) = boats_placed (snd (tied_evaluations ! 1))"
    by (simp_all add: tied_evaluations_def)
  have s: "score (snd (tied_evaluations ! 0)) < score (snd (tied_evaluations ! 1))"
    by (simp add: tied_evaluations_def)
  have sel: "findBestStrategy tied_evaluations
        = Some \<lparr>name = ''first_fit'', evaluation = snd (tied_evaluations ! 0)\<rparr>"
    by (simp add: tied_evaluations_def findBestStrategy_def)
  have bp: "boats_placed (snd (tied_evaluations ! 0)) = 3"
    by (simp add: tied_evaluations_def)
  note t = findBestStrategy_tie_keeps_first[OF h]
  from t sel have "\<exists>f<length tied_evaluations.
      tied_evaluations ! f
        = (name \<lparr>name = ''first_fit'', evaluation = snd (tied_evaluations ! 0)\<rparr>,
           evaluation \<lparr>name = ''first_fit'', evaluation = snd (tied_evaluations ! 0)\<rparr>)
      \<and> (\<forall>j<length tied_evaluations. boats_placed (snd (tied_evaluations ! j))
            \<le> boats_placed (evaluation \<lparr>name = ''first_fit'',
                 evaluation = snd (tied_evaluations ! 0)\<rparr>))
      \<and> (\<forall>j<f. boats_placed (snd (tied_evaluations ! j))
            < boats_placed (evaluation \<lparr>name = ''first_fit'',
                 evaluation = snd (tied_evaluations ! 0)\<rparr>))"
    by blast
  then have ex: "\<exists>f<length tied_evaluations.
          tied_evaluations ! f = (''first_fit'', snd (tied_evaluations ! 0))
          \<and> (\<forall>j<length tied_evaluations. boats_placed (snd (tied_evaluations ! j)) \<le> 3)
          \<and> (\<forall>j<f. boats_placed (snd (tied_evaluations ! j)) < 3)"
    by (simp add: bp)
  from t h s sel ex show ?thesis by blast
qed

subsection \<open>The run result and the narrative\<close>

lemma enhanceResult_sel:
  "auto_selected_best (enhanceResult d) = findBestStrategy (case evaluations d of None \<Rightarrow> [] | Some evs \<Rightarrow> evs)"
  "res_evaluations (enhanceResult d) = evaluations d"
  "res_strategies (enhanceResult d) = strategies d"
  "res_other_data (enhanceResult d) = other_data d"
  "res_gpt_analysis (enhanceResult d) = enhance_gpt (gpt_analysis d) (findBestStrategy (case evaluations d of None \<Rightarrow> [] | Some evs \<Rightarrow> evs))"
  "strategy_results (enhanceResult d) = (case strategies d of None \<Rightarrow> []
      | Some ss \<Rightarrow> map (\<lambda>(strategyName, placements). (strategyName, convert_placements strategyName placements)) ss)"
  by (simp_all add: enhanceResult_def Let_def)

lemma enhance_gpt_split:
  "gpt_recommendations (enhance_gpt gpt best) = gpt_recommendations (enhance_gpt None best) @ narrative_recommendations gpt"
  "gpt_best_strategy (enhance_gpt gpt best) = gpt_best_strategy (enhance_gpt None best)"
  "gpt_boats_placed (enhance_gpt gpt best) = gpt_boats_placed (enhance_gpt None best)"
  "gpt_total_boats (enhance_gpt gpt best) = gpt_total_boats (enhance_gpt None best)"
  "gpt_placement_rate (enhance_gpt gpt best) = gpt_placement_rate (enhance_gpt None best)"
  by (simp_all add: enhance_gpt_def narrative_recommendations_def)

lemma handleRunOptimization_resolved:
  "page_strategies st \<noteq> [] \<Longrightarrow>
   handleRunOptimization st (Resolved d) =
     st\<lparr>loading := False, page_error := NoError, progress := 100, currentStrategy := Finished,
        optimizationResult := Some (enhanceResult d)\<rparr>"
  by (simp add: handleRunOptimization_def Let_def)

text \<open>
  Claim C4: a resolved run is processed completely whether or not the response carries the
  narrative \<^verbatim>\<open>gpt_analysis\<close>. Without it (or with an empty one) the handler ends
  without error and stores a result whose strategies, evaluations, converted placements,
  selected best strategy and reported counts are those of the run with the narrative; the
  narrative only appends its recommendations.
\<close>

theorem run_result_without_narrative:
  assumes "page_strategies st \<noteq> []"
  shows "\<exists>e e0.
       optimizationResult (handleRunOptimization st (Resolved d)) = Some e
     \<and> optimizationResult (handleRunOptimization st (Resolved (d\<lparr>gpt_analysis := None\<rparr>))) = Some e0
     \<and> page_error (handleRunOptimization st (Resolved (d\<lparr>gpt_analysis := None\<rparr>))) = NoError
     \<and> handleRunOptimization st (Resolved (d\<lparr>gpt_analysis := Some \<lparr>recommendations = None, other_keys = []\<rparr>\<rparr>))
         = handleRunOptimization st (Resolved (d\<lparr>gpt_analysis := None\<rparr>))
     \<and> strategy_results e0 = strategy_results e
     \<and> res_strategies e0 = strategies d \<and> res_strategies e = strategies d
     \<and> res_evaluations e0 = evaluations d \<and> res_evaluations e = evaluations d
     \<and> auto_selected_best e0
         = findBestStrategy (case evaluations d of None \<Rightarrow> [] | Some evs \<Rightarrow> evs)
     \<and> auto_selected_best e = auto_selected_best e0
     \<and> gpt_best_strategy (res_gpt_analysis e) = gpt_best_strategy (res_gpt_analysis e0)
     \<and> gpt_boats_placed (res_gpt_analysis e) = gpt_boats_placed (res_gpt_analysis e0)
     \<and> gpt_total_boats (res_gpt_analysis e) = gpt_total_boats (res_gpt_analysis e0)
     \<and> gpt_placement_rate (res_gpt_analysis e) = gpt_placement_rate (res_gpt_analysis e0)
     \<and> gpt_recommendations (res_gpt_analysis e)
         = gpt_recommendations (res_gpt_analysis e0) @ narrative_recommendations (gpt_analysis d)"
proof -
  let ?full = "enhanceResult d"
  let ?without = "enhanceResult (d\<lparr>gpt_analysis := None\<rparr>)"
  have same: "enhanceResult (d\<lparr>gpt_analysis := Some \<lparr>recommendations = None, other_keys = []\<rparr>\<rparr>) = ?without"
    by (simp add: enhanceResult_def enhance_gpt_def Let_def)
  have r: "optimizationResult (handleRunOptimization st (Resolved d)) = Some ?full"
    "optimizationResult (handleRunOptimization st (Resolved (d\<lparr>gpt_analysis := None\<rparr>))) = Some ?without"
    "page_error (handleRunOptimization st (Resolved (d\<lparr>gpt_analysis := None\<rparr>))) = NoError"
    using assms by (simp_all add: handleRunOptimization_resolved)
  have h: "handleRunOptimization st (Resolved (d\<lparr>gpt_analysis := Some \<lparr>recommendations = None, other_keys = []\<rparr>\<rparr>))
         = handleRunOptimization st (Resolved (d\<lparr>gpt_analysis := None\<rparr>))"
    using assms same by (simp add: handleRunOptimization_resolved)
  have f: "strategy_results ?without = strategy_results ?full"
    "res_strategies ?without = strategies d" "res_strategies ?full = strategies d"
    "res_evaluations ?without = evaluations d" "res_evaluations ?full = evaluations d"
    "auto_selected_best ?without = findBestStrategy (case evaluations d of None \<Rightarrow> [] | Some evs \<Rightarrow> evs)"
    "auto_selected_best ?full = auto_selected_best ?without"
    by (simp_all add: enhanceResult_sel)
  have g: "gpt_best_strategy (res_gpt_analysis ?full) = gpt_best_strategy (res_gpt_analysis ?without)"
    "gpt_boats_placed (res_gpt_analysis ?full) = gpt_boats_placed (res_gpt_analysis ?without)"
    "gpt_total_boats (res_gpt_analysis ?full) = gpt_total_boats (res_gpt_analysis ?without)"
    "gpt_placement_rate (res_gpt_analysis ?full) = gpt_placement_rate (res_gpt_analysis ?without)"
    "gpt_recommendations (res_gpt_analysis ?full)
         = gpt_recommendations (res_gpt_analysis ?without) @ narrative_recommendations (gpt_analysis d)"
    by (simp_all add: enhanceResult_sel enhance_gpt_split[of "gpt_analysis d"])
  from r h f g show ?thesis by blast
qed

theorem run_result_without_narrative_witness:
  "page_strategies demo_page \<noteq> []
   \<and> (\<exists>e0. optimizationResult (handleRunOptimization demo_page
              (Resolved (tied_response\<lparr>gpt_analysis := None\<rparr>))) = Some e0
        \<and> auto_selected_best e0 = findBestStrategy tied_evaluations
        \<and> res_evaluations e0 = Some tied_evaluations)"
proof -
  have h: "page_strategies demo_page \<noteq> []" by (simp add: demo_page_def)
  have e: "evaluations tied_response = Some tied_evaluations" by (simp add: tied_response_def)
  from run_result_without_narrative[OF h, of tied_response] e h show ?thesis by auto
qed

subsection \<open>The reported placement rate\<close>

text \<open>
  Claim C5 says that for an empty boats list the reported placement rate is 1. With no
  boats every evaluation has \<open>boats_placed = 0\<close>, so no best strategy is selected and the
  page reports the fallback 0, even when the evaluation itself carries the rate 1.
\<close>

theorem empty_boats_reported_rate:
  "total_boats empty_boats_evaluation = 0
   \<and> placement_rate empty_boats_evaluation = 1
   \<and> evaluations empty_boats_response = Some [(''first_fit'', empty_boats_evaluation)]
   \<and> auto_selected_best (enhanceResult empty_boats_response) = None
   \<and> gpt_placement_rate (res_gpt_analysis (enhanceResult empty_boats_response)) = 0"
  by (simp add: empty_boats_response_def empty_boats_evaluation_def enhanceResult_def
      enhance_gpt_def findBestStrategy_def or_zero_def)

subsection \<open>The run request\<close>

text \<open>
  Claim C6 as stated (every run request carries boats, slots, strategy names, the
  background flag and a configuration) fails: the request has no body and exactly two query
  parameters.
\<close>

theorem runOptimization_sends_two_params:
  "body (runOptimization [''first_fit''] None) = None
   \<and> map fst (params (runOptimization [''first_fit''] None))
       = [''strategy_names'', ''run_in_background'']"
  by (simp add: runOptimization_def)

text \<open>
  Claim C6, amended: every run request is a POST to the optimisation endpoint without a
  body whose only parameters are the strategy names and the background flag; the flag is
  false when the caller gives no value, and the two parameters determine the request.
\<close>

theorem runOptimization_request:
  "url (runOptimization strategy_names run_in_background) = ''/api/optimize''
   \<and> body (runOptimization strategy_names run_in_background) = None
   \<and> map fst (params (runOptimization strategy_names run_in_background))
       = [''strategy_names'', ''run_in_background'']
   \<and> map_of (params (runOptimization strategy_names run_in_background)) ''strategy_names''
       = Some (Names strategy_names)
   \<and> map_of (params (runOptimization strategy_names run_in_background)) ''run_in_background''
       = Some (Flag (run_in_background = Some True))
   \<and> runOptimization strategy_names None = runOptimization strategy_names (Some False)
   \<and> ((runOptimization strategy_names run_in_background = runOptimization names' background')
        = (strategy_names = names' \<and> (run_in_background = Some True) = (background' = Some True)))"
  by (auto simp: runOptimization_def split: option.splits)

subsection \<open>The slot table\<close>

text \<open>
  Claim C7: every slot of the slot table has a maximum boat width no larger than its width
  and a maximum boat length no larger than its length.
\<close>

theorem slotsData_invariant: "list_all slot_invariant slotsData \<and> length slotsData = 9"
  by (simp add: slotsData_def slot_invariant_def)

subsection \<open>Order of the comparison views\<close>

lemma mset_insert_cmp: "mset (insert_cmp cmp x ys) = add_mset x (mset ys)"
  by (induction ys) auto

lemma mset_js_sort: "mset (js_sort cmp xs) = mset xs"
  by (induction xs) (auto simp: js_sort_def mset_insert_cmp)

lemma set_insert_cmp: "set (insert_cmp cmp x ys) = insert x (set ys)"
  by (induction ys) auto

lemma sorted_insert_by_boats_placed:
  "sorted_wrt placed_desc ys \<Longrightarrow> sorted_wrt placed_desc (insert_cmp by_boats_placed x ys)"
proof (induction ys)
  case Nil
  show ?case by simp
next
  case (Cons y ys)
  show ?case
  proof (cases "by_boats_placed x y \<le> 0")
    case True
    then have xy: "placed_desc x y" by (simp add: by_boats_placed_def placed_desc_def)
    have "\<forall>z\<in>set ys. placed_desc x z"
    proof
      fix z assume "z \<in> set ys"
      with Cons.prems have "placed_desc y z" by simp
      with xy show "placed_desc x z" by (simp add: placed_desc_def)
    qed
    with True xy Cons.prems show ?thesis by simp
  next
    case False
    then have yx: "placed_desc y x" by (simp add: by_boats_placed_def placed_desc_def)
    from Cons have "sorted_wrt placed_desc (insert_cmp by_boats_placed x ys)" by simp
    with False yx Cons.prems show ?thesis by (simp add: set_insert_cmp)
  qed
qed

lemma sorted_js_sort_by_boats_placed: "sorted_wrt placed_desc (js_sort by_boats_placed xs)"
proof (induction xs)
  case Nil
  show ?case by (simp add: js_sort_def)
next
  case (Cons x xs)
  then have "sorted_wrt placed_desc (insert_cmp by_boats_placed x (js_sort by_boats_placed xs))"
    by (rule sorted_insert_by_boats_placed)
  then show ?case by (simp add: js_sort_def)
qed


lemma sorted_entries_desc: "sorted_wrt placed_desc (sorted_entries evs)"
  by (simp add: sorted_entries_def sorted_js_sort_by_boats_placed)

lemma mset_sorted_entries:
  "mset (sorted_entries evs) = mset (case evs of None \<Rightarrow> [] | Some es \<Rightarrow> es)"
  by (simp add: sorted_entries_def mset_js_sort)

lemma entry_pairs_tabs:
  "map entry_pair (strategy_tabs res selected) = sorted_entries (res_evaluations res)"
  by (simp add: strategy_tabs_def strategy_tab_def entry_pair_def comp_def)

lemma length_result_grid: "length (result_grid res) = length (sorted_entries (res_evaluations res))"
  by (simp add: result_grid_def Let_def)

lemma nth_result_grid:
  "i < length (sorted_entries (res_evaluations res)) \<Longrightarrow>
   result_grid res ! i = grid_card res i (sorted_entries (res_evaluations res) ! i)"
  by (simp add: result_grid_def Let_def)

lemma entry_pairs_grid:
  "map entry_pair (result_grid res) = sorted_entries (res_evaluations res)"
  by (rule nth_equalityI)
     (simp_all add: length_result_grid nth_result_grid grid_card_def entry_pair_def)

lemma badge_grid_card: "BestBadge \<in> set (entry_markers (grid_card res i e)) \<longleftrightarrow> i = 0"
  by (simp add: grid_card_def)

lemma badge_strategy_tab: "BestBadge \<notin> set (entry_markers (strategy_tab res selected e))"
  by (simp add: strategy_tab_def)

text \<open>
  Claim C10 as stated (in both views the best badge is on the first entry of the sorted
  order) fails for the strategy tabs of the map: their first entry carries no such badge,
  while the first card of the result grid does.
\<close>

theorem strategy_tabs_no_badge:
  "strategy_tabs tied_result None \<noteq> []
   \<and> BestBadge \<notin> set (entry_markers (hd (strategy_tabs tied_result None)))
   \<and> BestBadge \<in> set (entry_markers (hd (result_grid tied_result)))"
  by (simp add: tied_result_def enhanceResult_def result_grid_def strategy_tabs_def strategy_tab_def sorted_entries_def js_sort_def tied_evaluations_def by_boats_placed_def Let_def grid_card_def is_auto_selected_def findBestStrategy_def)

text \<open>
  Claim C10, amended: in both views the evaluation entries are rendered in non-increasing
  order of \<open>boats_placed\<close>, each entry once; in the result grid the best badge is on the
  card at index 0 and on no other; the strategy tabs carry no best badge.
\<close>

theorem comparison_views_sorted:
  "sorted_wrt placed_desc (map entry_pair (result_grid res))
   \<and> sorted_wrt placed_desc (map entry_pair (strategy_tabs res selected))
   \<and> mset (map entry_pair (result_grid res))
       = mset (case res_evaluations res of None \<Rightarrow> [] | Some es \<Rightarrow> es)
   \<and> mset (map entry_pair (strategy_tabs res selected))
       = mset (case res_evaluations res of None \<Rightarrow> [] | Some es \<Rightarrow> es)
   \<and> (\<forall>i<length (result_grid res).
         BestBadge \<in> set (entry_markers (result_grid res ! i)) \<longleftrightarrow> i = 0)
   \<and> (\<forall>t\<in>set (strategy_tabs res selected). BestBadge \<notin> set (entry_markers t))"
proof -
  have "\<forall>i<length (result_grid res).
         BestBadge \<in> set (entry_markers (result_grid res ! i)) \<longleftrightarrow> i = 0"
    by (simp add: length_result_grid nth_result_grid badge_grid_card)
  moreover have "\<forall>t\<in>set (strategy_tabs res selected). BestBadge \<notin> set (entry_markers t)"
    by (auto simp: strategy_tabs_def badge_strategy_tab)
  ultimately show ?thesis
    by (simp only: entry_pairs_grid entry_pairs_tabs sorted_entries_desc mset_sorted_entries
        simp_thms)
qed

theorem comparison_views_sorted_witness:
  "(0::nat) < length (result_grid tied_result)
   \<and> BestBadge \<in> set (entry_markers (result_grid tied_result ! 0))
   \<and> hd (strategy_tabs tied_result None) \<in> set (strategy_tabs tied_result None)
   \<and> BestBadge \<notin> set (entry_markers (hd (strategy_tabs tied_result None)))"
proof -
  have l: "(0::nat) < length (result_grid tied_result)"
    by (simp add: tied_result_def enhanceResult_def result_grid_def sorted_entries_def
        js_sort_def tied_evaluations_def Let_def)
  have m: "hd (strategy_tabs tied_result None) \<in> set (strategy_tabs tied_result None)"
    by (simp add: tied_result_def enhanceResult_def strategy_tabs_def sorted_entries_def
        js_sort_def tied_evaluations_def by_boats_placed_def Let_def)
  from comparison_views_sorted[of tied_result None] l m show ?thesis by blast
qed

subsection \<open>The boat shown for a slot\<close>

lemma find_first_match:
  "\<forall>q\<in>set before. \<not> P q \<Longrightarrow> P p \<Longrightarrow> find P (before @ p # later) = Some p"
  by (induction before) auto

text \<open>
  Claim C8: for the selected strategy and any slot, the map shows the first placement of
  the strategy's list whose \<open>slot_id\<close> is the slot's, in the rectangle's text, its title,
  its colour and the tooltip, whatever placements follow it in the list; a later placement
  on the same slot is not shown.
\<close>

theorem map_shows_first_placement_only:
  assumes "showOptimization st" and "selectedStrategy st = Some s" and "s \<noteq> []"
    and "strategyPlacements st s = Some (before @ p # later)"
    and "\<forall>q\<in>set before. slot_id q \<noteq> ident slot"
    and "slot_id p = ident slot"
  shows "getBoatInfoForSlot st (ident slot) = Some p
     \<and> slot_label st slot = BoatText (boat_id p)
     \<and> slot_title_boat st slot = Some (boat_id p)
     \<and> getSlotColor st slot = Blue500
     \<and> (hoveredSlot st = Some slot \<longrightarrow> tooltip_boat st = Some p)"
proof -
  have sp: "shown_placements st = Some (before @ p # later)"
    using assms by (simp add: shown_placements_def)
  have f: "find (\<lambda>q. slot_id q = ident slot) (before @ p # later) = Some p"
    using assms(5,6) by (intro find_first_match) auto
  have g: "getBoatInfoForSlot st (ident slot) = Some p"
    using sp f by (simp add: getBoatInfoForSlot_def)
  have c: "getSlotColor st slot = Blue500"
    using sp f by (simp add: getSlotColor_def)
  from g c assms(1) show ?thesis
    by (simp add: slot_label_def slot_title_boat_def tooltip_boat_def)
qed

theorem map_shows_first_placement_only_witness:
  "showOptimization shared_slot_view \<and> selectedStrategy shared_slot_view = Some ''first_fit''
   \<and> ''first_fit'' \<noteq> []
   \<and> strategyPlacements shared_slot_view ''first_fit''
       = Some ([shared_slot_placements ! 0] @ shared_slot_placements ! 1 # [shared_slot_placements ! 2])
   \<and> slot_id (shared_slot_placements ! 2) = ident guest_slot
   \<and> hoveredSlot shared_slot_view = Some guest_slot
   \<and> slot_label shared_slot_view guest_slot = BoatText 12
   \<and> map_option boat_id (tooltip_boat shared_slot_view) = Some 12"
proof -
  have h: "showOptimization shared_slot_view" "selectedStrategy shared_slot_view = Some ''first_fit''"
    "''first_fit'' \<noteq> []"
    "strategyPlacements shared_slot_view ''first_fit''
       = Some ([shared_slot_placements ! 0] @ shared_slot_placements ! 1 # [shared_slot_placements ! 2])"
    "\<forall>q\<in>set [shared_slot_placements ! 0]. slot_id q \<noteq> ident guest_slot"
    "slot_id (shared_slot_placements ! 1) = ident guest_slot"
    by (simp_all add: shared_slot_view_def initial_visualization_def shared_slot_placements_def
        guest_slot_def)
  have x: "slot_id (shared_slot_placements ! 2) = ident guest_slot"
    "hoveredSlot shared_slot_view = Some guest_slot"
    "boat_id (shared_slot_placements ! 1) = 12"
    by (simp_all add: shared_slot_view_def initial_visualization_def shared_slot_placements_def
        guest_slot_def)
  from map_shows_first_placement_only[OF h] h x show ?thesis by simp
qed

subsection \<open>Selecting a slot\<close>

lemma handle_event_selection_ok: "selection_ok st \<Longrightarrow> selection_ok (handle_event st ev)"
proof (cases ev)
  case (StatusChange i new ok)
  assume "selection_ok st"
  then show ?thesis using StatusChange
    by (auto simp: selection_ok_def handleStatusChange_def Let_def split: option.splits)
next
  case (SlotClick slot)
  assume "selection_ok st"
  then show ?thesis using SlotClick by (simp add: selection_ok_def handleSlotClick_def)
next
  case ToggleView
  assume "selection_ok st"
  then show ?thesis using ToggleView
    by (simp add: selection_ok_def toggleOptimizationView_def Let_def split: option.splits)
next
  case (ResultLoaded r)
  assume "selection_ok st"
  then show ?thesis using ResultLoaded
    by (simp add: selection_ok_def loadOptimizationResult_def Let_def split: option.splits)
qed (simp_all add: selection_ok_def clearOptimization_def)

lemma foldl_selection_ok: "selection_ok st \<Longrightarrow> selection_ok (foldl handle_event st es)"
  by (induction es arbitrary: st) (simp_all add: handle_event_selection_ok)

lemma run_events_selection_ok: "selection_ok (run_events es)"
  unfolding run_events_def
  by (rule foldl_selection_ok) (simp add: selection_ok_def initial_visualization_def)

text \<open>
  Claim C9: a click on a permanent slot leaves the state as it is, a click on any other
  slot selects exactly that slot, and so after any sequence of events the selected slot,
  and with it the slot of the detail panel, is never a permanent one.
\<close>

theorem permanent_slot_never_selected:
  "(slot_type p = ''permanent'' \<longrightarrow> handleSlotClick st p = st)
   \<and> (slot_type q \<noteq> ''permanent'' \<longrightarrow> handleSlotClick st q = st\<lparr>selectedSlot := Some q\<rparr>)
   \<and> (selectedSlot (run_events es) = Some s \<longrightarrow> slot_type s \<noteq> ''permanent'')
   \<and> (detail_panel (run_events es) = Some s \<longrightarrow> slot_type s \<noteq> ''permanent'')"
proof -
  have a: "selectedSlot (run_events es) = Some s \<longrightarrow> slot_type s \<noteq> ''permanent''"
    using run_events_selection_ok[of es] by (auto simp: selection_ok_def)
  then have "detail_panel (run_events es) = Some s \<longrightarrow> slot_type s \<noteq> ''permanent''"
    by (simp add: detail_panel_def split: if_splits)
  with a show ?thesis by (simp add: handleSlotClick_def)
qed

theorem permanent_slot_never_selected_witness:
  "slot_type permanent_slot = ''permanent''
   \<and> handleSlotClick initial_visualization permanent_slot = initial_visualization
   \<and> slot_type guest_slot \<noteq> ''permanent''
   \<and> selectedSlot (handleSlotClick initial_visualization guest_slot) = Some guest_slot
   \<and> selectedSlot (run_events [SlotClick guest_slot, SlotClick permanent_slot]) = Some guest_slot
   \<and> detail_panel (run_events [SlotClick guest_slot, SlotClick permanent_slot]) = Some guest_slot
   \<and> status_actions_shown (run_events [SlotClick guest_slot, SlotClick permanent_slot])"
proof -
  have h: "slot_type permanent_slot = ''permanent''" "slot_type guest_slot \<noteq> ''permanent''"
    by (simp_all add: permanent_slot_def guest_slot_def)
  have d: "selectedSlot (run_events [SlotClick guest_slot, SlotClick permanent_slot]) = Some guest_slot"
    "detail_panel (run_events [SlotClick guest_slot, SlotClick permanent_slot]) = Some guest_slot"
    by (simp_all add: run_events_def handleSlotClick_def detail_panel_def
        initial_visualization_def permanent_slot_def guest_slot_def)
  from permanent_slot_never_selected[of permanent_slot initial_visualization guest_slot
      "[SlotClick guest_slot, SlotClick permanent_slot]" guest_slot] h d
  show ?thesis by (simp add: status_actions_shown_def)
qed

section \<open>Properties of the assignment engine\<close>

lemma overlaps_sym: "overlaps A B \<longleftrightarrow> overlaps B A"
  by (auto simp: overlaps_def)

lemma no_double_booking_snoc:
  "no_double_booking (as @ [a]) \<longleftrightarrow>
     no_double_booking as
     \<and> list_all (\<lambda>b. a_slot b = a_slot a \<longrightarrow> \<not> overlaps (interval b) (interval a)) as"
  by (induction as) (auto simp: list_all_iff)

lemma place_boat_keeps_invariant:
  assumes "no_double_booking acc"
  shows "no_double_booking (place_boat strat all_slots acc b)"
proof (cases "slot_choice strat b (filter (\<lambda>s. can_place b s (assignments_for_slot acc s)) all_slots)")
  case None
  with assms show ?thesis by (simp add: place_boat_def)
next
  case (Some s)
  show ?thesis
  proof (cases "can_place b s (assignments_for_slot acc s)")
    case False
    with Some assms show ?thesis by (simp add: place_boat_def)
  next
    case True
    let ?a = "\<lparr>a_boat = boat_ident b, a_slot = hs_ident s, a_start = arrival b,
                a_end = departure b, a_strategy = strat_name strat\<rparr>"
    from True have free: "\<forall>x\<in>set acc. a_slot x = hs_ident s \<longrightarrow>
        \<not> overlaps (arrival b, departure b) (interval x)"
      by (auto simp: can_place_def assignments_for_slot_def list_all_iff)
    have "list_all (\<lambda>x. a_slot x = a_slot ?a \<longrightarrow> \<not> overlaps (interval x) (interval ?a)) acc"
      unfolding list_all_iff
    proof
      fix x assume "x \<in> set acc"
      with free have "a_slot x = hs_ident s \<longrightarrow> \<not> overlaps (arrival b, departure b) (interval x)"
        by simp
      then show "a_slot x = a_slot ?a \<longrightarrow> \<not> overlaps (interval x) (interval ?a)"
        using overlaps_sym[of "interval x" "(arrival b, departure b)"] by (simp add: interval_def)
    qed
    with assms have "no_double_booking (acc @ [?a])" by (simp add: no_double_booking_snoc)
    with Some True show ?thesis by (simp add: place_boat_def)
  qed
qed

lemma foldl_place_boat_invariant:
  "no_double_booking acc \<Longrightarrow> no_double_booking (foldl (place_boat strat all_slots) acc bs)"
  by (induction bs arbitrary: acc) (simp_all add: place_boat_keeps_invariant)

lemma no_double_booking_nth:
  "no_double_booking as \<Longrightarrow> i < j \<Longrightarrow> j < length as \<Longrightarrow> a_slot (as ! i) = a_slot (as ! j)
   \<Longrightarrow> \<not> overlaps (interval (as ! i)) (interval (as ! j))"
proof (induction as arbitrary: i j)
  case Nil
  then show ?case by simp
next
  case (Cons a as)
  show ?case
  proof (cases i)
    case 0
    with Cons.prems obtain j' where j': "j = Suc j'" "j' < length as" by (cases j) auto
    with Cons.prems 0 show ?thesis by (auto simp: list_all_iff)
  next
    case (Suc i')
    with Cons.prems obtain j' where j': "j = Suc j'" "j' < length as" "i' < j'" by (cases j) auto
    with Cons Suc show ?thesis by simp
  qed
qed

text \<open>
  Claim C3: in the assignments of a single strategy run no two assignments of one slot have
  overlapping half-open intervals.
\<close>

theorem run_strategy_no_double_booking:
  "no_double_booking (run_strategy strat boats all_slots)
   \<and> (\<forall>i j. i < j \<and> j < length (run_strategy strat boats all_slots)
          \<and> a_slot (run_strategy strat boats all_slots ! i)
              = a_slot (run_strategy strat boats all_slots ! j)
        \<longrightarrow> \<not> overlaps (interval (run_strategy strat boats all_slots ! i))
                         (interval (run_strategy strat boats all_slots ! j)))"
proof -
  have inv: "no_double_booking (run_strategy strat boats all_slots)"
    unfolding run_strategy_def by (rule foldl_place_boat_invariant) simp
  then show ?thesis using no_double_booking_nth[OF inv] by blast
qed

lemma first_fit_scenario:
  "run_strategy first_fit scenario_boats scenario_slots =
     [\<lparr>a_boat = 1, a_slot = 1, a_start = 0, a_end = 10, a_strategy = ''first_fit''\<rparr>,
      \<lparr>a_boat = 2, a_slot = 2, a_start = 5, a_end = 15, a_strategy = ''first_fit''\<rparr>,
      \<lparr>a_boat = 3, a_slot = 1, a_start = 10, a_end = 20, a_strategy = ''first_fit''\<rparr>]"
  by (simp add: run_strategy_def first_fit_def place_boat_def scenario_boats_def
      scenario_slots_def can_place_def fits_def overlaps_def interval_def
      assignments_for_slot_def first_feasible_def Let_def)

theorem run_strategy_no_double_booking_witness:
  "(0::nat) < 2 \<and> 2 < length (run_strategy first_fit scenario_boats scenario_slots)
   \<and> a_slot (run_strategy first_fit scenario_boats scenario_slots ! 0)
       = a_slot (run_strategy first_fit scenario_boats scenario_slots ! 2)
   \<and> \<not> overlaps (interval (run_strategy first_fit scenario_boats scenario_slots ! 0))
                 (interval (run_strategy first_fit scenario_boats scenario_slots ! 2))
   \<and> length scenario_boats = 5"
proof -
  have h: "(0::nat) < 2" "2 < length (run_strategy first_fit scenario_boats scenario_slots)"
    "a_slot (run_strategy first_fit scenario_boats scenario_slots ! 0)
       = a_slot (run_strategy first_fit scenario_boats scenario_slots ! 2)"
    by (simp_all add: first_fit_scenario)
  have n: "length scenario_boats = 5" by (simp add: scenario_boats_def)
  from run_strategy_no_double_booking[of first_fit scenario_boats scenario_slots] h n
  show ?thesis by blast
qed

end
